theory Spec2Isabelle
  imports Complex_Main "HOL-Library.Multiset" "HOL-Library.Sublist"
begin

section \<open>Data model of \<open>main.go\<close>\<close>

text \<open>
  The three structs of the program. Go's \<open>float64\<close> coordinates and distances are
  modelled as reals: the program only stores them, passes them to the distance
  function and compares distances with \<open>\<le>\<close> and \<open><\<close>. A distance that is not a
  number fails the test \<open>distance <= 50\<close> and so never reaches a result, hence on
  the retained values the comparison is a linear order, as it is on the reals.
\<close>

record Property =
  Name :: string
  Latitude :: real
  Longitude :: real

record PropertyResponse =
  rName :: string
  Distance :: real
  rLatitude :: real
  rLongitude :: real

record SearchResponse =
  Properties :: "PropertyResponse list"
  Message :: string

definition mkProperty :: "string \<Rightarrow> real \<Rightarrow> real \<Rightarrow> Property" where
  "mkProperty n la lo = \<lparr>Name = n, Latitude = la, Longitude = lo\<rparr>"

text \<open>The catalog, \<open>var properties\<close>, in source order.\<close>

definition properties :: "Property list" where
  "properties =
    [mkProperty ''Moustache Udaipur Luxuria'' 24.57799888 73.68263271,
     mkProperty ''Moustache Udaipur'' 24.58145726 73.68223671,
     mkProperty ''Moustache Udaipur Verandah'' 24.58350565 73.68120777,
     mkProperty ''Moustache Jaipur'' 27.29124839 75.89630143,
     mkProperty ''Moustache Jaisalmer'' 27.20578572 70.85906998,
     mkProperty ''Moustache Jodhpur'' 26.30365556 73.03570908,
     mkProperty ''Moustache Agra'' 27.26156953 78.07524716,
     mkProperty ''Moustache Delhi'' 28.61257139 77.28423582,
     mkProperty ''Moustache Rishikesh Luxuria'' 30.13769036 78.32465767,
     mkProperty ''Moustache Rishikesh Riverside Resort'' 30.10216117 78.38458848,
     mkProperty ''Moustache Hostel Varanasi'' 25.2992622 82.99691388,
     mkProperty ''Moustache Goa Luxuria'' 15.6135195 73.75705228,
     mkProperty ''Moustache Koksar Luxuria'' 32.4357785 77.18518717,
     mkProperty ''Moustache Daman'' 20.41486263 72.83282455,
     mkProperty ''Panarpani Retreat'' 22.52805539 78.43116291,
     mkProperty ''Moustache Pushkar'' 26.48080513 74.5613783,
     mkProperty ''Moustache Khajuraho'' 24.84602104 79.93139381,
     mkProperty ''Moustache Manali'' 32.28818695 77.17702523,
     mkProperty ''Moustache Bhintal Luxuria'' 29.36552248 79.53481747,
     mkProperty ''Moustache Srinagar'' 34.11547314 74.88701741,
     mkProperty ''Moustache Ranthambore Luxuria'' 26.05471373 76.42953726,
     mkProperty ''Moustache Coimbatore'' 11.02064612 76.96293531,
     mkProperty ''Moustache Shoja'' 31.56341267 77.36733331]"

text \<open>
  \<open>var cityCenters\<close>: a Go map from the city key to its \<open>{Lat, Lon}\<close>. The entries
  are kept as an association list (the keys are distinct), the lookup is \<open>map_of\<close>.
\<close>

definition cityCenters_entries :: "(string \<times> real \<times> real) list" where
  "cityCenters_entries =
    [(''udaipur'', 24.5854, 73.7125),
     (''jaipur'', 26.9124, 75.7873),
     (''jaisalmer'', 26.9157, 70.9083),
     (''delih'', 28.7041, 77.1025),
     (''udiapur'', 24.5854, 73.7125)]"

definition cityCenters :: "string \<rightharpoonup> real \<times> real" where
  "cityCenters = map_of cityCenters_entries"

definition cityKeys :: "string list" where
  "cityKeys = map fst cityCenters_entries"

text \<open>
  \<open>for city := range cityCenters\<close> visits every key once, in an order the Go
  runtime chooses anew for each loop. The order is a parameter of the model: a list
  that holds each key of the map exactly once.
\<close>

definition iteration_order :: "string list \<Rightarrow> bool" where
  "iteration_order order = (distinct order \<and> set order = set cityKeys)"

text \<open>\<open>searchCache\<close>: a Go map from the cache key to the stored response.\<close>

type_synonym cache = "string \<rightharpoonup> SearchResponse"

section \<open>Library functions the program calls\<close>

text \<open>
  Strings are sequences of ASCII characters. \<open>strings.ToLower\<close> maps \<open>A\<close>..\<open>Z\<close> to
  \<open>a\<close>..\<open>z\<close> and \<open>strings.TrimSpace\<close> removes leading and trailing white space
  (tab, line feed, vertical tab, form feed, carriage return, space); on characters
  beyond ASCII the two Go functions work on Unicode code points, which is outside
  this model.
\<close>

definition toLowerChar :: "char \<Rightarrow> char" where
  "toLowerChar c =
     (case map_of (zip ''ABCDEFGHIJKLMNOPQRSTUVWXYZ'' ''abcdefghijklmnopqrstuvwxyz'') c of
        Some l \<Rightarrow> l
      | None \<Rightarrow> c)"

definition ToLower :: "string \<Rightarrow> string" where
  "ToLower s = map toLowerChar s"

definition isSpace :: "char \<Rightarrow> bool" where
  "isSpace c = (c \<in> set [CHR 0x09, CHR 0x0A, CHR 0x0B, CHR 0x0C, CHR 0x0D, CHR 0x20])"

definition TrimSpace :: "string \<Rightarrow> string" where
  "TrimSpace s = rev (dropWhile isSpace (rev (dropWhile isSpace s)))"

text \<open>
  Modelled from the spec: \<open>levenshtein.ComputeDistance\<close> of the package
  \<open>github.com/agnivade/levenshtein\<close>, which is not part of the repository. The spec
  gives it as the Levenshtein distance: insertions, deletions and substitutions
  cost 1 each.
\<close>

fun ComputeDistance :: "string \<Rightarrow> string \<Rightarrow> nat" where
  "ComputeDistance [] ys = length ys"
| "ComputeDistance (x # xs) [] = Suc (length xs)"
| "ComputeDistance (x # xs) (y # ys) =
     min (min (Suc (ComputeDistance xs (y # ys))) (Suc (ComputeDistance (x # xs) ys)))
         (ComputeDistance xs ys + (if x = y then 0 else 1))"

text \<open>
  \<open>calculateDistance\<close> only forwards to \<open>GreatCircleDistance\<close> of the package
  \<open>github.com/kellydunn/golang-geo\<close>, floating-point trigonometry that is not part
  of the repository. The model takes it as a parameter: any function of the two
  coordinate pairs.
\<close>

type_synonym distance_fn = "real \<Rightarrow> real \<Rightarrow> real \<Rightarrow> real \<Rightarrow> real"

text \<open>
  \<open>sort.Slice(results, less)\<close> with \<open>less i j = results[i].Distance < results[j].Distance\<close>
  is the sort of Go's standard library. Its documentation promises a rearrangement
  of the slice that is ordered by \<open>less\<close> and says that the sort is not guaranteed
  to be stable. Which algorithm runs depends on the Go release and on the length:
  every release sorts a slice of at most 6 elements by the insertion sort below
  (before Go 1.19 slices of 7 to 12 elements first get a shell-sort pass with gap 6,
  longer ones a quicksort; since Go 1.19 insertion sort runs up to 12 elements and
  pattern-defeating quicksort beyond). The model runs the insertion sort on short
  slices and takes the sort of longer slices as a parameter \<open>longSort\<close>, of which
  \<open>sort_Slice_contract\<close> states what the documentation promises.
\<close>

type_synonym sort_fn = "PropertyResponse list \<Rightarrow> PropertyResponse list"

definition by_distance :: "PropertyResponse list \<Rightarrow> bool" where
  "by_distance rs = sorted_wrt (\<lambda>a b. \<not> Distance b < Distance a) rs"

definition sort_Slice_contract :: "sort_fn \<Rightarrow> bool" where
  "sort_Slice_contract longSort = (\<forall>rs. mset (longSort rs) = mset rs \<and> by_distance (longSort rs))"

text \<open>
  The library's insertion sort:
  \<^verbatim>\<open>for i := a + 1; i < b; i++ {
    for j := i; j > a && less(j, j-1); j-- { swap(j, j-1) } }\<close>
  The inner loop is \<open>swap_down\<close>: the sorted prefix \<open>data[a..i)\<close> is held with its
  last element first, and \<open>data[i]\<close> moves past each neighbour it is less than.
\<close>

fun swap_down :: "PropertyResponse \<Rightarrow> PropertyResponse list \<Rightarrow> PropertyResponse list" where
  "swap_down x [] = [x]"
| "swap_down x (p # before) =
     (if Distance x < Distance p then p # swap_down x before else x # p # before)"

definition insertionSort :: sort_fn where
  "insertionSort rs = rev (foldl (\<lambda>sorted_prefix x. swap_down x sorted_prefix) [] rs)"

definition sort_Slice :: "sort_fn \<Rightarrow> sort_fn" where
  "sort_Slice longSort rs = (if length rs \<le> 6 then insertionSort rs else longSort rs)"

text \<open>\<open>fmt.Sprintf("%d", n)\<close> for a length \<open>n\<close>: the decimal digits of \<open>n\<close>.\<close>

definition digit_char :: "nat \<Rightarrow> char" where
  "digit_char d = ''0123456789'' ! d"

fun Sprintf_d :: "nat \<Rightarrow> string" where
  "Sprintf_d n = (if n < 10 then [digit_char n] else Sprintf_d (n div 10) @ [digit_char (n mod 10)])"

declare Sprintf_d.simps [simp del]

section \<open>The functions of \<open>main.go\<close>\<close>

text \<open>
  \<open>findBestCityMatch\<close>: the loop over the keys carries \<open>minDistance\<close> (initially 2)
  and \<open>bestMatch\<close> (initially the empty string).
\<close>

fun findBestCityMatch_loop :: "string \<Rightarrow> string list \<Rightarrow> int \<times> string \<Rightarrow> int \<times> string" where
  "findBestCityMatch_loop query [] (minDistance, bestMatch) = (minDistance, bestMatch)"
| "findBestCityMatch_loop query (city # rest) (minDistance, bestMatch) =
     (let distance = int (ComputeDistance query city)
      in if distance < minDistance
         then findBestCityMatch_loop query rest (distance, city)
         else findBestCityMatch_loop query rest (minDistance, bestMatch))"

definition findBestCityMatch :: "string list \<Rightarrow> string \<Rightarrow> string" where
  "findBestCityMatch order query = snd (findBestCityMatch_loop (ToLower query) order (2, ''''))"

text \<open>
  The scan of the catalog in \<open>searchProperties\<close>: every property within 50 km of the
  target is appended to \<open>results\<close>, in catalog order.
\<close>

fun scan_properties :: "distance_fn \<Rightarrow> real \<Rightarrow> real \<Rightarrow> Property list \<Rightarrow> PropertyResponse list" where
  "scan_properties calculateDistance targetLat targetLon [] = []"
| "scan_properties calculateDistance targetLat targetLon (prop # rest) =
     (let distance = calculateDistance targetLat targetLon (Latitude prop) (Longitude prop)
      in if distance \<le> 50
         then \<lparr>rName = Name prop, Distance = distance,
               rLatitude = Latitude prop, rLongitude = Longitude prop\<rparr>
              # scan_properties calculateDistance targetLat targetLon rest
         else scan_properties calculateDistance targetLat targetLon rest)"

definition not_recognized :: SearchResponse where
  "not_recognized = \<lparr>Properties = [], Message = ''Location not recognized''\<rparr>"

text \<open>The response built from the sorted \<open>results\<close> (the last \<open>if\<close> of \<open>searchProperties\<close>).\<close>

definition build_response :: "PropertyResponse list \<Rightarrow> SearchResponse" where
  "build_response results =
     (if length results = 0
      then \<lparr>Properties = [], Message = ''No properties found within 50km''\<rparr>
      else \<lparr>Properties = results,
            Message = ''Found '' @ Sprintf_d (length results) @ '' properties within 50km''\<rparr>)"

text \<open>
  The resolution step of \<open>searchProperties\<close>: \<open>found\<close>, the target coordinates and
  the cache key after it. A key that is not in \<open>cityCenters\<close> reads as the zero
  value \<open>{0, 0}\<close>, as a Go map lookup does.
\<close>

definition resolve_target :: "string list \<Rightarrow> string \<Rightarrow> bool \<times> real \<times> real \<times> string" where
  "resolve_target order query =
     (case cityCenters (ToLower query) of
        Some (lat, lon) \<Rightarrow> (True, lat, lon, ToLower query)
      | None \<Rightarrow>
          (let bestMatch = findBestCityMatch order query
           in if bestMatch \<noteq> ''''
              then (case cityCenters bestMatch of
                      Some (lat, lon) \<Rightarrow> (True, lat, lon, bestMatch)
                    | None \<Rightarrow> (True, 0, 0, bestMatch))
              else (False, 0, 0, ToLower query)))"

text \<open>
  \<open>searchProperties\<close> with the cache passed in and returned. The parameters are the
  distance function, the order in which the fuzzy matcher's loop visits the map,
  and the library's sort of long slices. Logging and the clock are left out; the
  locks are not modelled, the function is taken as one sequential step.
\<close>

definition searchProperties ::
  "distance_fn \<Rightarrow> string list \<Rightarrow> sort_fn \<Rightarrow> cache \<Rightarrow> string \<Rightarrow> SearchResponse \<times> cache" where
  "searchProperties calculateDistance order longSort searchCache rawQuery =
     (let query = TrimSpace rawQuery
      in case searchCache (ToLower query) of
           Some cached \<Rightarrow> (cached, searchCache)
         | None \<Rightarrow>
             (case resolve_target order query of
                (found, targetLat, targetLon, cacheKey) \<Rightarrow>
                  if \<not> found
                  then (not_recognized, searchCache(cacheKey \<mapsto> not_recognized))
                  else (let results = sort_Slice longSort
                              (scan_properties calculateDistance targetLat targetLon properties);
                            response = build_response results
                        in (response, searchCache(cacheKey \<mapsto> response)))))"

text \<open>
  \<open>searchHandler\<close>: \<open>r.URL.Query().Get("q")\<close> is the empty string when the parameter
  is missing; an empty \<open>q\<close> is answered with status 400 and the cache is not touched.
\<close>

datatype http_error = StatusBadRequest

definition Get_q :: "string option \<Rightarrow> string" where
  "Get_q q = (case q of None \<Rightarrow> '''' | Some v \<Rightarrow> v)"

definition searchHandler ::
  "distance_fn \<Rightarrow> string list \<Rightarrow> sort_fn \<Rightarrow> cache \<Rightarrow> string option
     \<Rightarrow> (http_error + SearchResponse) \<times> cache" where
  "searchHandler calculateDistance order longSort searchCache q =
     (let query = Get_q q
      in if query = '''' then (Inl StatusBadRequest, searchCache)
         else (case searchProperties calculateDistance order longSort searchCache query of
                 (response, searchCache') \<Rightarrow> (Inr response, searchCache')))"

section \<open>Runs of the server\<close>

text \<open>
  The cache starts empty (\<open>make(map[string]SearchResponse)\<close>) and only
  \<open>searchProperties\<close> writes to it. \<open>reachable d c\<close>: the cache \<open>c\<close> is the result of
  some sequence of calls, each with its own iteration order of the map and with a
  library sort that keeps its documented promise; the distance function \<open>d\<close> is
  the same in all calls.
\<close>

inductive reachable :: "distance_fn \<Rightarrow> cache \<Rightarrow> bool" for d :: distance_fn where
  reachable_empty: "reachable d Map.empty"
| reachable_step: "reachable d c \<Longrightarrow> iteration_order order \<Longrightarrow> sort_Slice_contract longSort
     \<Longrightarrow> reachable d (snd (searchProperties d order longSort c q))"

section \<open>Auxiliary definitions for evaluation at concrete inputs\<close>

text \<open>
  The edit distance row by row: \<open>distance_rows xs ys\<close> lists the distances of every
  suffix of \<open>xs\<close> to \<open>ys\<close>; each row is computed from the row before it. It is proved
  equal to \<open>ComputeDistance\<close> below and only serves to evaluate it in linear space.
\<close>

fun first_row :: "string \<Rightarrow> nat list" where
  "first_row [] = [0]"
| "first_row (x # xs) = Suc (length xs) # first_row xs"

definition row_cell :: "bool \<Rightarrow> nat list \<Rightarrow> nat list \<Rightarrow> nat list" where
  "row_cell same r rest =
     min (min (Suc (hd rest)) (Suc (hd r))) (hd (tl r) + (if same then 0 else 1)) # rest"

fun next_row :: "char \<Rightarrow> string \<Rightarrow> nat list \<Rightarrow> nat list" where
  "next_row y [] r = [Suc (hd r)]"
| "next_row y (x # xs) r = row_cell (x = y) r (next_row y xs (tl r))"

fun distance_rows :: "string \<Rightarrow> string \<Rightarrow> nat list" where
  "distance_rows xs [] = first_row xs"
| "distance_rows xs (y # ys) = next_row y xs (distance_rows xs ys)"

fun suffix_distances :: "string \<Rightarrow> string \<Rightarrow> nat list" where
  "suffix_distances [] ys = [ComputeDistance [] ys]"
| "suffix_distances (x # xs) ys = ComputeDistance (x # xs) ys # suffix_distances xs ys"

text \<open>
  A sample distance function, 111 km for each degree of the larger of the two
  coordinate differences, and a sample sort of long slices, to run the model at
  concrete inputs.
\<close>

definition sample_distance :: distance_fn where
  "sample_distance lat1 lon1 lat2 lon2 = 111 * max \<bar>lat1 - lat2\<bar> \<bar>lon1 - lon2\<bar>"

definition sample_sort :: sort_fn where
  "sample_sort rs = sort_key Distance rs"

section \<open>Definitions used in the proofs\<close>

text \<open>
  What every cache of a run holds. Under a key of \<open>cityCenters\<close>: the response
  built for that city's coordinates. Under any other key: the response
  "Location not recognized", and the key has no city within edit distance 1.
\<close>

definition cache_inv :: "distance_fn \<Rightarrow> cache \<Rightarrow> bool" where
  "cache_inv d c =
     (\<forall>k r. c k = Some r \<longrightarrow>
        (case cityCenters k of
           Some (lat, lon) \<Rightarrow>
             (\<exists>longSort. sort_Slice_contract longSort \<and>
                r = build_response (sort_Slice longSort (scan_properties d lat lon properties)))
         | None \<Rightarrow>
             r = not_recognized \<and> (\<forall>city\<in>set cityKeys. \<not> ComputeDistance k city < 2)))"

text \<open>
  A property of every great-circle distance, here with a margin: two points
  with latitudes between -90 and 90 degrees are at least 100 km apart for each
  degree their latitudes differ by (a degree of latitude is about 111 km of the
  meridian).
\<close>

definition meridian_bound :: "distance_fn \<Rightarrow> bool" where
  "meridian_bound d =
     (\<forall>lat1 lon1 lat2 lon2. \<bar>lat1\<bar> \<le> 90 \<and> \<bar>lat2\<bar> \<le> 90 \<longrightarrow>
        100 * \<bar>lat1 - lat2\<bar> \<le> d lat1 lon1 lat2 lon2)"

section \<open>Evaluating the edit distance\<close>

lemma hd_suffix_distances: "hd (suffix_distances xs ys) = ComputeDistance xs ys"
  by (cases xs) simp_all

lemma suffix_distances_Nil: "suffix_distances xs [] = first_row xs"
  by (induction xs) simp_all

lemma suffix_distances_Cons: "suffix_distances xs (y # ys) = next_row y xs (suffix_distances xs ys)"
proof (induction xs)
  case Nil
  show ?case by simp
next
  case (Cons x xs)
  have "next_row y (x # xs) (suffix_distances (x # xs) ys)
      = row_cell (x = y) (ComputeDistance (x # xs) ys # suffix_distances xs ys)
          (suffix_distances xs (y # ys))"
    by (simp only: suffix_distances.simps next_row.simps list.sel Cons.IH)
  also have "\<dots> = ComputeDistance (x # xs) (y # ys) # suffix_distances xs (y # ys)"
    by (simp only: row_cell_def list.sel hd_suffix_distances ComputeDistance.simps)
  finally show ?case
    by (simp only: suffix_distances.simps)
qed

lemma suffix_distances_rows: "suffix_distances xs ys = distance_rows xs ys"
  by (induction ys) (simp_all add: suffix_distances_Nil suffix_distances_Cons)

lemma ComputeDistance_rows: "ComputeDistance xs ys = hd (distance_rows xs ys)"
  by (simp add: suffix_distances_rows [symmetric] hd_suffix_distances)

lemmas distance_eval = ComputeDistance_rows row_cell_def

section \<open>The fuzzy matcher\<close>

lemma findBestCityMatch_loop_inv:
  "findBestCityMatch_loop q cs (m, b) = (m', b') \<Longrightarrow>
     ((m', b') = (m, b) \<or> (b' \<in> set cs \<and> int (ComputeDistance q b') = m' \<and> m' < m))
     \<and> m' \<le> m \<and> (\<forall>c\<in>set cs. m' \<le> int (ComputeDistance q c))"
proof (induction cs arbitrary: m b)
  case Nil
  then show ?case by simp
next
  case (Cons city rest)
  show ?case
  proof (cases "int (ComputeDistance q city) < m")
    case True
    with Cons.prems
    have "findBestCityMatch_loop q rest (int (ComputeDistance q city), city) = (m', b')"
      by (simp add: Let_def)
    from Cons.IH [OF this] True show ?thesis by auto
  next
    case False
    with Cons.prems have "findBestCityMatch_loop q rest (m, b) = (m', b')"
      by (simp add: Let_def)
    from Cons.IH [OF this] False show ?thesis by auto
  qed
qed

lemma findBestCityMatch_loop_result:
  obtains m' b' where "findBestCityMatch_loop (ToLower query) order (2, '''') = (m', b')"
    and "findBestCityMatch order query = b'"
  by (cases "findBestCityMatch_loop (ToLower query) order (2, '''')")
     (simp add: findBestCityMatch_def)

lemma findBestCityMatch_cases:
  "findBestCityMatch order query = '''' \<or>
     (findBestCityMatch order query \<in> set order \<and>
      ComputeDistance (ToLower query) (findBestCityMatch order query) < 2)"
proof -
  obtain m' b' where r: "findBestCityMatch_loop (ToLower query) order (2, '''') = (m', b')"
    and b: "findBestCityMatch order query = b'"
    by (rule findBestCityMatch_loop_result)
  from findBestCityMatch_loop_inv [OF r]
  have "b' = '''' \<or> (b' \<in> set order \<and> int (ComputeDistance (ToLower query) b') < 2)"
    by auto
  then show ?thesis unfolding b by auto
qed

lemma findBestCityMatch_minimal:
  assumes "findBestCityMatch order query \<noteq> ''''" and "c \<in> set order"
  shows "ComputeDistance (ToLower query) (findBestCityMatch order query)
           \<le> ComputeDistance (ToLower query) c"
proof -
  obtain m' b' where r: "findBestCityMatch_loop (ToLower query) order (2, '''') = (m', b')"
    and b: "findBestCityMatch order query = b'"
    by (rule findBestCityMatch_loop_result)
  note inv = findBestCityMatch_loop_inv [OF r]
  from inv assms(1) have "int (ComputeDistance (ToLower query) b') = m'"
    unfolding b by auto
  moreover from inv assms(2) have "m' \<le> int (ComputeDistance (ToLower query) c)"
    by blast
  ultimately show ?thesis unfolding b by linarith
qed

lemma findBestCityMatch_found:
  assumes "c \<in> set order" and "ComputeDistance (ToLower query) c < 2" and "'''' \<notin> set order"
  shows "findBestCityMatch order query \<noteq> ''''"
proof -
  obtain m' b' where r: "findBestCityMatch_loop (ToLower query) order (2, '''') = (m', b')"
    and b: "findBestCityMatch order query = b'"
    by (rule findBestCityMatch_loop_result)
  note inv = findBestCityMatch_loop_inv [OF r]
  have "m' \<le> int (ComputeDistance (ToLower query) c)"
    using inv assms(1) by blast
  then have "m' < 2" using assms(2) by linarith
  then have "b' \<in> set order" using inv by auto
  then show ?thesis unfolding b using assms(3) by auto
qed

text \<open>
  C3. Whatever the order of the candidates, \<open>findBestCityMatch\<close> returns a candidate
  only if its Levenshtein distance to the lowercased query is less than 2 and no
  candidate is strictly nearer; when no candidate is at distance 0 or 1 it returns
  the empty string.
\<close>

theorem findBestCityMatch_threshold:
  "(findBestCityMatch order query \<noteq> '''' \<longrightarrow>
      findBestCityMatch order query \<in> set order \<and>
      ComputeDistance (ToLower query) (findBestCityMatch order query) < 2 \<and>
      (\<forall>c\<in>set order. ComputeDistance (ToLower query) (findBestCityMatch order query)
                        \<le> ComputeDistance (ToLower query) c))
   \<and> ((\<forall>c\<in>set order. \<not> ComputeDistance (ToLower query) c < 2) \<longrightarrow>
        findBestCityMatch order query = '''')"
  using findBestCityMatch_cases [of order query] findBestCityMatch_minimal [of order query]
  by blast

lemma findBestCityMatch_Jaipurr: "findBestCityMatch cityKeys ''Jaipurr'' = ''jaipur''"
  by (simp add: findBestCityMatch_def cityKeys_def cityCenters_entries_def ToLower_def
      toLowerChar_def distance_eval del: ComputeDistance.simps)

theorem findBestCityMatch_threshold_witness:
  "findBestCityMatch cityKeys ''Jaipurr'' = ''jaipur'' \<and>
   ComputeDistance (ToLower ''Jaipurr'') ''jaipur'' < 2 \<and>
   ComputeDistance (ToLower ''Jaipurr'') ''jaipur'' \<le> ComputeDistance (ToLower ''Jaipurr'') ''udaipur''"
proof -
  have ne: "findBestCityMatch cityKeys ''Jaipurr'' \<noteq> ''''"
    by (simp add: findBestCityMatch_Jaipurr)
  have mem: "''udaipur'' \<in> set cityKeys"
    by (simp add: cityKeys_def cityCenters_entries_def)
  from findBestCityMatch_threshold [of cityKeys "''Jaipurr''"] ne mem
  show ?thesis unfolding findBestCityMatch_Jaipurr by blast
qed

section \<open>Strings and the map of cities\<close>

lemma TrimSpace_all_space: "\<forall>c\<in>set q. isSpace c \<Longrightarrow> TrimSpace q = []"
proof -
  assume "\<forall>c\<in>set q. isSpace c"
  then have "dropWhile isSpace q = []" by (induction q) simp_all
  then show ?thesis unfolding TrimSpace_def by (simp only: rev.simps dropWhile.simps)
qed

lemma ToLower_Nil: "ToLower [] = []"
  by (simp add: ToLower_def)

lemma set_cityKeys:
  "set cityKeys = {''udaipur'', ''jaipur'', ''jaisalmer'', ''delih'', ''udiapur''}"
  by (simp add: cityKeys_def cityCenters_entries_def)

lemma distinct_cityKeys: "distinct cityKeys"
  by (simp add: cityKeys_def cityCenters_entries_def)

lemma dom_cityCenters: "dom cityCenters = set cityKeys"
  by (simp add: cityCenters_def cityKeys_def dom_map_of_conv_image_fst)

lemma cityCenters_None: "cityCenters k = None \<longleftrightarrow> k \<notin> set cityKeys"
proof -
  have "k \<in> dom cityCenters \<longleftrightarrow> cityCenters k \<noteq> None"
    by (rule domIff)
  then show ?thesis unfolding dom_cityCenters by blast
qed

lemma cityKey_normal: "k \<in> set cityKeys \<Longrightarrow> TrimSpace k = k \<and> ToLower k = k"
  unfolding set_cityKeys
  by (auto simp: TrimSpace_def isSpace_def ToLower_def toLowerChar_def)

lemma cityKey_not_empty: "'''' \<notin> set cityKeys"
  by (simp add: set_cityKeys)

lemma cityKey_long: "k \<in> set cityKeys \<Longrightarrow> 2 \<le> ComputeDistance [] k"
  unfolding set_cityKeys by auto

lemma iteration_order_cityKeys: "iteration_order cityKeys"
  by (simp add: iteration_order_def distinct_cityKeys)

lemma iteration_order_set: "iteration_order order \<Longrightarrow> set order = set cityKeys"
  by (simp add: iteration_order_def)

section \<open>The sort\<close>

lemma by_distance_sorted: "by_distance rs \<longleftrightarrow> sorted (map Distance rs)"
  by (simp add: by_distance_def sorted_map not_less)

lemma mset_swap_down: "mset (swap_down x pre) = add_mset x (mset pre)"
  by (induction pre) simp_all

lemma set_swap_down: "set (swap_down x pre) = insert x (set pre)"
  by (induction pre) auto

lemma descending_swap_down:
  "sorted_wrt (\<lambda>a b. Distance b \<le> Distance a) pre
     \<Longrightarrow> sorted_wrt (\<lambda>a b. Distance b \<le> Distance a) (swap_down x pre)"
proof (induction pre)
  case Nil
  show ?case by simp
next
  case (Cons p before)
  show ?case
  proof (cases "Distance x < Distance p")
    case True
    with Cons show ?thesis by (auto simp: set_swap_down)
  next
    case False
    with Cons.prems show ?thesis by fastforce
  qed
qed

lemma filter_swap_down:
  "filter (\<lambda>r. Distance r = k) (swap_down x pre) = filter (\<lambda>r. Distance r = k) (x # pre)"
  by (induction pre) auto

lemma foldl_swap_down:
  "mset (foldl (\<lambda>pre x. swap_down x pre) acc rs) = mset acc + mset rs \<and>
   (sorted_wrt (\<lambda>a b. Distance b \<le> Distance a) acc \<longrightarrow>
      sorted_wrt (\<lambda>a b. Distance b \<le> Distance a) (foldl (\<lambda>pre x. swap_down x pre) acc rs)) \<and>
   filter (\<lambda>r. Distance r = k) (foldl (\<lambda>pre x. swap_down x pre) acc rs)
     = filter (\<lambda>r. Distance r = k) (rev rs @ acc)"
proof (induction rs arbitrary: acc)
  case Nil
  show ?case by simp
next
  case (Cons x rs)
  from Cons.IH [of "swap_down x acc"] show ?case
    by (simp add: mset_swap_down descending_swap_down filter_swap_down)
qed

lemma mset_insertionSort: "mset (insertionSort rs) = mset rs"
  using foldl_swap_down [of "[]" rs] by (simp add: insertionSort_def)

lemma by_distance_insertionSort: "by_distance (insertionSort rs)"
proof -
  have "sorted_wrt (\<lambda>a b. Distance b \<le> Distance a) (foldl (\<lambda>pre x. swap_down x pre) [] rs)"
    using foldl_swap_down [of "[]" rs] by simp
  then show ?thesis
    by (simp add: insertionSort_def by_distance_def sorted_wrt_rev not_less)
qed

lemma stable_insertionSort:
  "filter (\<lambda>r. Distance r = k) (insertionSort rs) = filter (\<lambda>r. Distance r = k) rs"
proof -
  have "filter (\<lambda>r. Distance r = k) (foldl (\<lambda>pre x. swap_down x pre) [] rs)
          = filter (\<lambda>r. Distance r = k) (rev rs)"
    using foldl_swap_down [of "[]" rs k] by simp
  then show ?thesis
    by (simp add: insertionSort_def rev_filter [symmetric])
qed

lemma mset_sort_Slice: "sort_Slice_contract longSort \<Longrightarrow> mset (sort_Slice longSort rs) = mset rs"
  by (simp add: sort_Slice_def sort_Slice_contract_def mset_insertionSort)

lemma by_distance_sort_Slice: "sort_Slice_contract longSort \<Longrightarrow> by_distance (sort_Slice longSort rs)"
  by (simp add: sort_Slice_def sort_Slice_contract_def by_distance_insertionSort)

lemma length_sort_Slice: "sort_Slice_contract longSort \<Longrightarrow> length (sort_Slice longSort rs) = length rs"
  using mset_sort_Slice [of longSort rs] by (metis size_mset)

lemma sort_Slice_short: "length rs \<le> 6 \<Longrightarrow> sort_Slice longSort rs = insertionSort rs"
  by (simp add: sort_Slice_def)

lemma sample_sort_contract: "sort_Slice_contract sample_sort"
  by (simp add: sort_Slice_contract_def sample_sort_def by_distance_sorted)

section \<open>The scan of the catalog\<close>

lemma scan_properties_filter:
  "scan_properties d lat lon ps =
     map (\<lambda>p. \<lparr>rName = Name p, Distance = d lat lon (Latitude p) (Longitude p),
               rLatitude = Latitude p, rLongitude = Longitude p\<rparr>)
         (filter (\<lambda>p. d lat lon (Latitude p) (Longitude p) \<le> 50) ps)"
  by (induction ps) (simp_all add: Let_def)

lemma scan_properties_within: "r \<in> set (scan_properties d lat lon ps) \<Longrightarrow> Distance r \<le> 50"
  by (auto simp: scan_properties_filter)

lemma scan_properties_subseq: "subseq (map rName (scan_properties d lat lon ps)) (map Name ps)"
  by (induction ps) (auto simp: Let_def)

lemma scan_properties_length:
  assumes "meridian_bound d" and "\<bar>lat\<bar> \<le> 90"
  shows "\<forall>p\<in>set ps. \<bar>Latitude p\<bar> \<le> 90 \<Longrightarrow>
         length (scan_properties d lat lon ps)
           \<le> length (filter (\<lambda>p. \<bar>lat - Latitude p\<bar> \<le> 1 / 2) ps)"
proof (induction ps)
  case Nil
  show ?case by simp
next
  case (Cons p ps)
  from Cons.prems have "\<bar>Latitude p\<bar> \<le> 90"
    by simp
  with assms have "100 * \<bar>lat - Latitude p\<bar> \<le> d lat lon (Latitude p) (Longitude p)"
    by (simp add: meridian_bound_def)
  then have "\<bar>lat - Latitude p\<bar> \<le> 1 / 2" if "d lat lon (Latitude p) (Longitude p) \<le> 50"
    using that by simp
  with Cons show ?case by (auto simp: Let_def)
qed

lemma scaled_le: "a \<le> m \<Longrightarrow> 0 \<le> a \<Longrightarrow> 100 * a \<le> 111 * (m :: real)"
  by linarith

lemma sample_distance_meridian_bound: "meridian_bound sample_distance"
  unfolding meridian_bound_def sample_distance_def
  by (intro allI impI scaled_le) simp_all

section \<open>The resolution step\<close>

lemma resolve_target_exact:
  "cityCenters (ToLower query) = Some (lat, lon)
     \<Longrightarrow> resolve_target order query = (True, lat, lon, ToLower query)"
  by (simp add: resolve_target_def)

lemma resolve_target_fuzzy:
  assumes "cityCenters (ToLower query) = None"
    and "findBestCityMatch order query \<noteq> ''''"
    and "cityCenters (findBestCityMatch order query) = Some (lat, lon)"
  shows "resolve_target order query = (True, lat, lon, findBestCityMatch order query)"
  using assms by (simp add: resolve_target_def Let_def)

lemma resolve_target_unresolved:
  assumes "cityCenters (ToLower query) = None"
    and "findBestCityMatch order query = ''''"
  shows "resolve_target order query = (False, 0, 0, ToLower query)"
  using assms by (simp add: resolve_target_def Let_def)

lemma findBestCityMatch_city:
  assumes "iteration_order order" and "findBestCityMatch order query \<noteq> ''''"
  shows "findBestCityMatch order query \<in> set cityKeys"
    and "\<exists>lat lon. cityCenters (findBestCityMatch order query) = Some (lat, lon)"
proof -
  show key: "findBestCityMatch order query \<in> set cityKeys"
    using findBestCityMatch_cases [of order query] assms
    by (auto simp: iteration_order_def)
  then have "cityCenters (findBestCityMatch order query) \<noteq> None"
    by (simp add: cityCenters_None)
  then show "\<exists>lat lon. cityCenters (findBestCityMatch order query) = Some (lat, lon)"
    by auto
qed

lemma findBestCityMatch_none:
  assumes "iteration_order order" and "findBestCityMatch order query = ''''"
  shows "\<forall>city\<in>set cityKeys. \<not> ComputeDistance (ToLower query) city < 2"
proof
  fix city assume c: "city \<in> set cityKeys"
  show "\<not> ComputeDistance (ToLower query) city < 2"
  proof
    assume "ComputeDistance (ToLower query) city < 2"
    with c assms(1) have "findBestCityMatch order query \<noteq> ''''"
      by (intro findBestCityMatch_found [of city])
         (simp_all add: iteration_order_def cityKey_not_empty)
    with assms(2) show False by simp
  qed
qed

lemma findBestCityMatch_far:
  assumes "iteration_order order"
    and "\<forall>city\<in>set cityKeys. \<not> ComputeDistance (ToLower query) city < 2"
  shows "findBestCityMatch order query = ''''"
  using findBestCityMatch_cases [of order query] assms
  by (auto simp: iteration_order_def)

lemma resolve_target_cases [consumes 1, case_names exact fuzzy unresolved]:
  assumes "iteration_order order"
  obtains (exact) lat lon where "cityCenters (ToLower query) = Some (lat, lon)"
      and "resolve_target order query = (True, lat, lon, ToLower query)"
  | (fuzzy) lat lon where "cityCenters (ToLower query) = None"
      and "findBestCityMatch order query \<noteq> ''''"
      and "cityCenters (findBestCityMatch order query) = Some (lat, lon)"
      and "resolve_target order query = (True, lat, lon, findBestCityMatch order query)"
  | (unresolved) "cityCenters (ToLower query) = None"
      and "findBestCityMatch order query = ''''"
      and "resolve_target order query = (False, 0, 0, ToLower query)"
proof (cases "cityCenters (ToLower query)")
  case (Some coords)
  obtain lat lon where "coords = (lat, lon)" by (cases coords)
  with Some exact resolve_target_exact show ?thesis by blast
next
  case None
  show ?thesis
  proof (cases "findBestCityMatch order query = ''''")
    case True
    with None unresolved resolve_target_unresolved show ?thesis by blast
  next
    case False
    with findBestCityMatch_city(2) [OF assms] obtain lat lon
      where "cityCenters (findBestCityMatch order query) = Some (lat, lon)" by blast
    with None False fuzzy resolve_target_fuzzy show ?thesis by blast
  qed
qed

section \<open>One call of \<open>searchProperties\<close>\<close>

lemma searchProperties_hit:
  "searchCache (ToLower (TrimSpace q)) = Some r
     \<Longrightarrow> searchProperties d order longSort searchCache q = (r, searchCache)"
  by (simp add: searchProperties_def Let_def)

lemma searchProperties_found:
  assumes "searchCache (ToLower (TrimSpace q)) = None"
    and "resolve_target order (TrimSpace q) = (True, lat, lon, key)"
  shows "searchProperties d order longSort searchCache q =
           (build_response (sort_Slice longSort (scan_properties d lat lon properties)),
            searchCache(key \<mapsto>
              build_response (sort_Slice longSort (scan_properties d lat lon properties))))"
  using assms by (simp add: searchProperties_def Let_def)

lemma searchProperties_unresolved:
  assumes "searchCache (ToLower (TrimSpace q)) = None"
    and "resolve_target order (TrimSpace q) = (False, lat, lon, key)"
  shows "searchProperties d order longSort searchCache q =
           (not_recognized, searchCache(key \<mapsto> not_recognized))"
  using assms by (simp add: searchProperties_def Let_def)

section \<open>What the cache holds\<close>

lemma cache_inv_empty: "cache_inv d Map.empty"
  by (simp add: cache_inv_def)

lemma cache_inv_city:
  assumes "cache_inv d c" and "c k = Some r" and "cityCenters k = Some (lat, lon)"
  obtains longSort where "sort_Slice_contract longSort"
    and "r = build_response (sort_Slice longSort (scan_properties d lat lon properties))"
  using assms unfolding cache_inv_def by fastforce

lemma cache_inv_other:
  assumes "cache_inv d c" and "c k = Some r" and "cityCenters k = None"
  shows "r = not_recognized" and "\<forall>city\<in>set cityKeys. \<not> ComputeDistance k city < 2"
  using assms unfolding cache_inv_def by fastforce+

lemma cache_inv_update_city:
  assumes "cache_inv d c" and "cityCenters key = Some (lat, lon)"
    and "sort_Slice_contract longSort"
  shows "cache_inv d
           (c(key \<mapsto> build_response (sort_Slice longSort (scan_properties d lat lon properties))))"
  unfolding cache_inv_def
proof (intro allI impI)
  fix k r
  assume kr: "(c(key \<mapsto> build_response (sort_Slice longSort (scan_properties d lat lon properties)))) k
                = Some r"
  show "case cityCenters k of
          None \<Rightarrow> r = not_recognized \<and> (\<forall>city\<in>set cityKeys. \<not> ComputeDistance k city < 2)
        | Some (lat, lon) \<Rightarrow>
            \<exists>longSort. sort_Slice_contract longSort \<and>
              r = build_response (sort_Slice longSort (scan_properties d lat lon properties))"
  proof (cases "k = key")
    case True
    with kr have "r = build_response (sort_Slice longSort (scan_properties d lat lon properties))"
      by simp
    with True assms(2,3) show ?thesis by auto
  next
    case False
    with kr have "c k = Some r" by simp
    with assms(1) show ?thesis unfolding cache_inv_def by blast
  qed
qed

lemma cache_inv_update_other:
  assumes "cache_inv d c" and "cityCenters key = None"
    and "\<forall>city\<in>set cityKeys. \<not> ComputeDistance key city < 2"
  shows "cache_inv d (c(key \<mapsto> not_recognized))"
  unfolding cache_inv_def
proof (intro allI impI)
  fix k r
  assume kr: "(c(key \<mapsto> not_recognized)) k = Some r"
  show "case cityCenters k of
          None \<Rightarrow> r = not_recognized \<and> (\<forall>city\<in>set cityKeys. \<not> ComputeDistance k city < 2)
        | Some (lat, lon) \<Rightarrow>
            \<exists>longSort. sort_Slice_contract longSort \<and>
              r = build_response (sort_Slice longSort (scan_properties d lat lon properties))"
  proof (cases "k = key")
    case True
    with kr have "r = not_recognized" by simp
    with True assms(2,3) show ?thesis by simp
  next
    case False
    with kr have "c k = Some r" by simp
    with assms(1) show ?thesis unfolding cache_inv_def by blast
  qed
qed

lemma cache_inv_step:
  assumes inv: "cache_inv d c" and io: "iteration_order order"
    and srt: "sort_Slice_contract longSort"
  shows "cache_inv d (snd (searchProperties d order longSort c q))"
proof (cases "c (ToLower (TrimSpace q))")
  case (Some r)
  then show ?thesis using inv by (simp add: searchProperties_hit)
next
  case None
  from io show ?thesis
  proof (cases rule: resolve_target_cases [where query = "TrimSpace q"])
    case (exact lat lon)
    with None inv srt show ?thesis
      by (simp add: searchProperties_found cache_inv_update_city)
  next
    case (fuzzy lat lon)
    with None inv srt show ?thesis
      by (simp add: searchProperties_found cache_inv_update_city)
  next
    case unresolved
    have "\<forall>city\<in>set cityKeys. \<not> ComputeDistance (ToLower (TrimSpace q)) city < 2"
      using io unresolved(2) by (rule findBestCityMatch_none)
    with None inv unresolved show ?thesis
      by (simp add: searchProperties_unresolved cache_inv_update_other)
  qed
qed

lemma reachable_cache_inv: "reachable d c \<Longrightarrow> cache_inv d c"
  by (induction rule: reachable.induct) (simp_all add: cache_inv_empty cache_inv_step)

text \<open>
  The response of a call, whether it is computed or read from the cache: the
  response built for the resolved target, or "Location not recognized".
\<close>

lemma searchProperties_response [consumes 3, case_names resolved unresolved]:
  assumes inv: "cache_inv d c" and io: "iteration_order order"
    and srt: "sort_Slice_contract longSort"
  obtains (resolved) lat lon key longSort'
    where "resolve_target order (TrimSpace q) = (True, lat, lon, key)"
      and "cityCenters key = Some (lat, lon)"
      and "sort_Slice_contract longSort'"
      and "fst (searchProperties d order longSort c q)
             = build_response (sort_Slice longSort' (scan_properties d lat lon properties))"
  | (unresolved) lat lon key
    where "resolve_target order (TrimSpace q) = (False, lat, lon, key)"
      and "fst (searchProperties d order longSort c q) = not_recognized"
proof (cases "c (ToLower (TrimSpace q))")
  case None
  from io show ?thesis
  proof (cases rule: resolve_target_cases [where query = "TrimSpace q"])
    case (exact lat lon)
    with None srt show ?thesis
      by (intro resolved [of lat lon "ToLower (TrimSpace q)" longSort])
         (simp_all add: searchProperties_found)
  next
    case (fuzzy lat lon)
    with None srt show ?thesis
      by (intro resolved [of lat lon "findBestCityMatch order (TrimSpace q)" longSort])
         (simp_all add: searchProperties_found)
  next
    case unresolved
    with None show ?thesis
      by (intro that(2) [of 0 0 "ToLower (TrimSpace q)"])
         (simp_all add: searchProperties_unresolved)
  qed
next
  case (Some r)
  then have r: "fst (searchProperties d order longSort c q) = r"
    by (simp add: searchProperties_hit)
  show ?thesis
  proof (cases "cityCenters (ToLower (TrimSpace q))")
    case (Some coords)
    obtain lat lon where coords: "coords = (lat, lon)" by (cases coords)
    from inv \<open>c (ToLower (TrimSpace q)) = Some r\<close> Some [unfolded coords]
    obtain longSort' where "sort_Slice_contract longSort'"
      and "r = build_response (sort_Slice longSort' (scan_properties d lat lon properties))"
      by (rule cache_inv_city)
    with Some coords r show ?thesis
      by (intro resolved [of lat lon "ToLower (TrimSpace q)" longSort'])
         (simp_all add: resolve_target_exact)
  next
    case None
    from cache_inv_other [OF inv \<open>c (ToLower (TrimSpace q)) = Some r\<close> None]
    have nr: "r = not_recognized"
      and far: "\<forall>city\<in>set cityKeys. \<not> ComputeDistance (ToLower (TrimSpace q)) city < 2"
      by simp_all
    from io far have "findBestCityMatch order (TrimSpace q) = ''''"
      by (rule findBestCityMatch_far)
    with None have "resolve_target order (TrimSpace q) = (False, 0, 0, ToLower (TrimSpace q))"
      by (rule resolve_target_unresolved)
    with r nr show ?thesis
      by (intro that(2) [of 0 0 "ToLower (TrimSpace q)"]) simp_all
  qed
qed

section \<open>The cache key\<close>

lemma TrimSpace_Jaipurr: "TrimSpace ''Jaipurr '' = ''Jaipurr''"
  by (simp add: TrimSpace_def isSpace_def)

lemma ToLower_Jaipurr: "ToLower ''Jaipurr'' = ''jaipurr''"
  by (simp add: ToLower_def toLowerChar_def)

lemma cityCenters_jaipurr: "cityCenters ''jaipurr'' = None"
  by (simp add: cityCenters_None set_cityKeys)

lemma reachable_miss:
  assumes "reachable d searchCache" and "iteration_order order"
    and "cityCenters (ToLower (TrimSpace q)) = None"
    and "findBestCityMatch order (TrimSpace q) \<noteq> ''''"
  shows "searchCache (ToLower (TrimSpace q)) = None"
proof (rule ccontr)
  assume "searchCache (ToLower (TrimSpace q)) \<noteq> None"
  then obtain r where r: "searchCache (ToLower (TrimSpace q)) = Some r" by auto
  have "cache_inv d searchCache"
    using assms(1) by (rule reachable_cache_inv)
  from cache_inv_other(2) [OF this r assms(3)]
  have "findBestCityMatch order (TrimSpace q) = ''''"
    using assms(2) by (intro findBestCityMatch_far)
  with assms(4) show False by simp
qed

text \<open>
  C1. On a cache miss \<open>searchProperties\<close> stores the response it computes: under the
  lowercased, trimmed query when that is a key of \<open>cityCenters\<close> (exact match),
  under the key the fuzzy matcher returned when it matched, and under the
  lowercased, trimmed query when resolution failed.
\<close>

theorem searchProperties_cache_key:
  assumes "iteration_order order"
    and "searchCache (ToLower (TrimSpace q)) = None"
  shows "(cityCenters (ToLower (TrimSpace q)) \<noteq> None \<longrightarrow>
            snd (searchProperties d order longSort searchCache q)
              = searchCache(ToLower (TrimSpace q) \<mapsto>
                  fst (searchProperties d order longSort searchCache q)))
       \<and> (cityCenters (ToLower (TrimSpace q)) = None
            \<and> findBestCityMatch order (TrimSpace q) \<noteq> '''' \<longrightarrow>
            findBestCityMatch order (TrimSpace q) \<in> set cityKeys \<and>
            snd (searchProperties d order longSort searchCache q)
              = searchCache(findBestCityMatch order (TrimSpace q) \<mapsto>
                  fst (searchProperties d order longSort searchCache q)))
       \<and> (cityCenters (ToLower (TrimSpace q)) = None
            \<and> findBestCityMatch order (TrimSpace q) = '''' \<longrightarrow>
            fst (searchProperties d order longSort searchCache q) = not_recognized \<and>
            snd (searchProperties d order longSort searchCache q)
              = searchCache(ToLower (TrimSpace q) \<mapsto>
                  fst (searchProperties d order longSort searchCache q)))"
  using assms(1)
proof (cases rule: resolve_target_cases [where query = "TrimSpace q"])
  case (exact lat lon)
  then show ?thesis
    using assms(2) by (simp add: searchProperties_found)
next
  case (fuzzy lat lon)
  then show ?thesis
    using assms(2) findBestCityMatch_city(1) [OF assms(1), of "TrimSpace q"]
    by (simp add: searchProperties_found)
next
  case unresolved
  then show ?thesis
    using assms(2) by (simp add: searchProperties_unresolved)
qed

theorem searchProperties_cache_key_witness:
  "snd (searchProperties sample_distance cityKeys sample_sort Map.empty ''Jaipurr '')
     = [''jaipur'' \<mapsto> fst (searchProperties sample_distance cityKeys sample_sort Map.empty ''Jaipurr '')]"
proof -
  have miss: "Map.empty (ToLower (TrimSpace ''Jaipurr '')) = (None :: SearchResponse option)"
    by simp
  have no_city: "cityCenters (ToLower (TrimSpace ''Jaipurr '')) = None"
    by (simp only: TrimSpace_Jaipurr ToLower_Jaipurr cityCenters_jaipurr)
  have best: "findBestCityMatch cityKeys (TrimSpace ''Jaipurr '') = ''jaipur''"
    by (simp only: TrimSpace_Jaipurr findBestCityMatch_Jaipurr)
  from searchProperties_cache_key [OF iteration_order_cityKeys miss,
      where d = sample_distance and longSort = sample_sort] no_city best
  show ?thesis by simp
qed

section \<open>The probe of the cache\<close>

text \<open>
  C5. The cache is probed with the trimmed, lowercased raw query before anything
  is resolved: when that key is in the cache the stored response is returned as it
  is and the cache is left alone, whatever the distance function, the iteration
  order and the sort. A query that only resolves through the fuzzy matcher is
  never a key of the cache of a run, neither before the call nor after it, so it
  does not hit the cache, although the city it matches may be cached.
\<close>

theorem cache_probe:
  "(searchCache (ToLower (TrimSpace q)) = Some r \<longrightarrow>
      searchProperties d order longSort searchCache q = (r, searchCache))
   \<and> (reachable d searchCache \<and> iteration_order order
        \<and> cityCenters (ToLower (TrimSpace q)) = None
        \<and> findBestCityMatch order (TrimSpace q) \<noteq> '''' \<longrightarrow>
        searchCache (ToLower (TrimSpace q)) = None \<and>
        snd (searchProperties d order longSort searchCache q) (ToLower (TrimSpace q)) = None)"
proof (intro conjI impI)
  assume "searchCache (ToLower (TrimSpace q)) = Some r"
  then show "searchProperties d order longSort searchCache q = (r, searchCache)"
    by (rule searchProperties_hit)
next
  assume a: "reachable d searchCache \<and> iteration_order order
        \<and> cityCenters (ToLower (TrimSpace q)) = None
        \<and> findBestCityMatch order (TrimSpace q) \<noteq> ''''"
  then show miss: "searchCache (ToLower (TrimSpace q)) = None"
    by (intro reachable_miss [of d searchCache order]) simp_all
  from a have io: "iteration_order order" by simp
  have key: "findBestCityMatch order (TrimSpace q) \<in> set cityKeys"
    using a by (intro findBestCityMatch_city(1)) simp_all
  with a have ne: "findBestCityMatch order (TrimSpace q) \<noteq> ToLower (TrimSpace q)"
    by (auto simp: cityCenters_None)
  from io show "snd (searchProperties d order longSort searchCache q) (ToLower (TrimSpace q)) = None"
  proof (cases rule: resolve_target_cases [where query = "TrimSpace q"])
    case (exact lat lon)
    with a show ?thesis by simp
  next
    case (fuzzy lat lon)
    with miss ne show ?thesis
      by (simp add: searchProperties_found)
  next
    case unresolved
    with a show ?thesis by simp
  qed
qed

theorem cache_probe_witness:
  "snd (searchProperties sample_distance cityKeys sample_sort Map.empty ''jaipur'') ''jaipurr'' = None
   \<and> snd (searchProperties sample_distance cityKeys sample_sort
        (snd (searchProperties sample_distance cityKeys sample_sort Map.empty ''jaipur''))
        ''Jaipurr '') ''jaipurr'' = None"
proof -
  have r: "reachable sample_distance
             (snd (searchProperties sample_distance cityKeys sample_sort Map.empty ''jaipur''))"
    by (intro reachable_step reachable_empty iteration_order_cityKeys sample_sort_contract)
  have no_city: "cityCenters (ToLower (TrimSpace ''Jaipurr '')) = None"
    by (simp only: TrimSpace_Jaipurr ToLower_Jaipurr cityCenters_jaipurr)
  have best: "findBestCityMatch cityKeys (TrimSpace ''Jaipurr '') \<noteq> ''''"
    by (simp add: TrimSpace_Jaipurr findBestCityMatch_Jaipurr)
  have norm: "ToLower (TrimSpace ''Jaipurr '') = ''jaipurr''"
    by (simp only: TrimSpace_Jaipurr ToLower_Jaipurr)
  from cache_probe [where searchCache
        = "snd (searchProperties sample_distance cityKeys sample_sort Map.empty ''jaipur'')"
      and q = "''Jaipurr ''" and d = sample_distance and order = cityKeys
      and longSort = sample_sort]
    r iteration_order_cityKeys no_city best
  show ?thesis unfolding norm by blast
qed

section \<open>A misspelling, then the exact spelling\<close>

text \<open>
  C10. After \<open>searchProperties m\<close> for a query \<open>m\<close> that is no key of \<open>cityCenters\<close> and
  that the fuzzy matcher resolves to the key \<open>k\<close>, the cache has the returned
  response under \<open>k\<close>; a following call \<open>searchProperties k\<close> returns that response
  and leaves the cache as it is, whatever distance function, iteration order and
  sort that call runs with: nothing is computed again.
\<close>

theorem misspelling_then_exact:
  assumes "reachable d searchCache" and "iteration_order order"
    and "cityCenters (ToLower (TrimSpace m)) = None"
    and "findBestCityMatch order (TrimSpace m) = k" and "k \<noteq> ''''"
  shows "snd (searchProperties d order longSort searchCache m) k
           = Some (fst (searchProperties d order longSort searchCache m))
       \<and> searchProperties d' order' longSort' (snd (searchProperties d order longSort searchCache m)) k
           = (fst (searchProperties d order longSort searchCache m),
              snd (searchProperties d order longSort searchCache m))"
proof -
  have ne: "findBestCityMatch order (TrimSpace m) \<noteq> ''''"
    using assms(4,5) by simp
  have miss: "searchCache (ToLower (TrimSpace m)) = None"
    using assms(1,2,3) ne by (rule reachable_miss)
  have key: "k \<in> set cityKeys"
    using findBestCityMatch_city(1) [OF assms(2) ne] assms(4) by simp
  obtain lat lon where "cityCenters k = Some (lat, lon)"
    using findBestCityMatch_city(2) [OF assms(2) ne] assms(4) by auto
  with assms(3,4) ne
  have "resolve_target order (TrimSpace m) = (True, lat, lon, k)"
    using resolve_target_fuzzy [of "TrimSpace m" order lat lon] by simp
  with miss
  have "searchProperties d order longSort searchCache m =
          (build_response (sort_Slice longSort (scan_properties d lat lon properties)),
           searchCache(k \<mapsto>
             build_response (sort_Slice longSort (scan_properties d lat lon properties))))"
    by (rule searchProperties_found)
  then have stored: "snd (searchProperties d order longSort searchCache m) k
                  = Some (fst (searchProperties d order longSort searchCache m))"
    by simp
  have "snd (searchProperties d order longSort searchCache m) (ToLower (TrimSpace k))
          = Some (fst (searchProperties d order longSort searchCache m))"
    using stored cityKey_normal [OF key] by simp
  then have "searchProperties d' order' longSort'
               (snd (searchProperties d order longSort searchCache m)) k
          = (fst (searchProperties d order longSort searchCache m),
             snd (searchProperties d order longSort searchCache m))"
    by (rule searchProperties_hit)
  with stored show ?thesis by simp
qed

theorem misspelling_then_exact_witness:
  "snd (searchProperties sample_distance cityKeys sample_sort Map.empty ''Jaipurr '') ''jaipur''
     = Some (fst (searchProperties sample_distance cityKeys sample_sort Map.empty ''Jaipurr ''))
   \<and> fst (searchProperties sample_distance (rev cityKeys) sample_sort
        (snd (searchProperties sample_distance cityKeys sample_sort Map.empty ''Jaipurr ''))
        ''jaipur'')
     = fst (searchProperties sample_distance cityKeys sample_sort Map.empty ''Jaipurr '')"
proof -
  have no_city: "cityCenters (ToLower (TrimSpace ''Jaipurr '')) = None"
    by (simp only: TrimSpace_Jaipurr ToLower_Jaipurr cityCenters_jaipurr)
  have best: "findBestCityMatch cityKeys (TrimSpace ''Jaipurr '') = ''jaipur''"
    by (simp only: TrimSpace_Jaipurr findBestCityMatch_Jaipurr)
  have ne: "''jaipur'' \<noteq> ''''" by simp
  from misspelling_then_exact [OF reachable_empty iteration_order_cityKeys no_city best ne,
      where d = sample_distance and longSort = sample_sort and d' = sample_distance
        and order' = "rev cityKeys" and longSort' = sample_sort]
  show ?thesis by simp
qed

section \<open>A query of white space\<close>

lemma findBestCityMatch_empty:
  assumes "iteration_order order"
  shows "findBestCityMatch order '''' = ''''"
proof (rule findBestCityMatch_far [OF assms])
  show "\<forall>city\<in>set cityKeys. \<not> ComputeDistance (ToLower '''') city < 2"
    using cityKey_long by (fastforce simp: ToLower_Nil)
qed

text \<open>
  C9. A query parameter that is not empty and holds only white space does not get
  status 400: \<open>searchHandler\<close> calls \<open>searchProperties\<close>, the query is trimmed to the
  empty string, no city resolves, the response is "Location not recognized" with
  no properties, and the cache holds it under the empty string.
\<close>

theorem whitespace_query:
  assumes "q \<noteq> ''''" and "\<forall>c\<in>set q. isSpace c"
    and "reachable d searchCache" and "iteration_order order"
  shows "searchHandler d order longSort searchCache (Some q)
           = (Inr \<lparr>Properties = [], Message = ''Location not recognized''\<rparr>,
              searchCache('''' \<mapsto> \<lparr>Properties = [], Message = ''Location not recognized''\<rparr>))"
proof -
  have trim: "ToLower (TrimSpace q) = ''''"
    using assms(2) by (simp add: TrimSpace_all_space ToLower_Nil)
  have trim': "TrimSpace q = ''''"
    using assms(2) by (rule TrimSpace_all_space)
  have no_city: "cityCenters '''' = None"
    by (simp add: cityCenters_None cityKey_not_empty)
  have call: "searchProperties d order longSort searchCache q
                = (not_recognized, searchCache('''' \<mapsto> not_recognized))"
  proof (cases "searchCache ''''")
    case None
    have "resolve_target order (TrimSpace q) = (False, 0, 0, ToLower (TrimSpace q))"
      unfolding trim'
      by (rule resolve_target_unresolved)
         (simp_all add: ToLower_Nil no_city findBestCityMatch_empty [OF assms(4)])
    with None show ?thesis
      using searchProperties_unresolved [where searchCache = searchCache and q = q
          and order = order and lat = 0 and lon = 0 and key = "ToLower (TrimSpace q)"]
      by (simp add: trim)
  next
    case (Some r)
    have "cache_inv d searchCache"
      using assms(3) by (rule reachable_cache_inv)
    from cache_inv_other(1) [OF this Some no_city] have r: "r = not_recognized" .
    have "searchCache('''' \<mapsto> not_recognized) = searchCache"
      using Some r by (simp add: map_upd_triv)
    with Some r show ?thesis
      using searchProperties_hit [where searchCache = searchCache and q = q and r = r]
      by (simp add: trim)
  qed
  show ?thesis
    using assms(1) call
    by (simp add: searchHandler_def Get_q_def Let_def not_recognized_def)
qed

lemma isSpace_blanks: "\<forall>c\<in>set ''   ''. isSpace c"
  by (simp add: isSpace_def)

theorem whitespace_query_witness:
  "searchHandler sample_distance cityKeys sample_sort Map.empty (Some ''   '')
     = (Inr \<lparr>Properties = [], Message = ''Location not recognized''\<rparr>,
        [[] \<mapsto> \<lparr>Properties = [], Message = ''Location not recognized''\<rparr>])"
proof -
  have ne: "''   '' \<noteq> ''''" by simp
  from whitespace_query [OF ne isSpace_blanks reachable_empty iteration_order_cityKeys,
      where longSort = sample_sort]
  show ?thesis .
qed

section \<open>The response\<close>

lemma Properties_build_response: "Properties (build_response rs) = rs"
  by (simp add: build_response_def)

lemma build_response_empty:
  "build_response [] = \<lparr>Properties = [], Message = ''No properties found within 50km''\<rparr>"
  by (simp add: build_response_def)

lemma Message_build_response:
  "rs \<noteq> [] \<Longrightarrow> Message (build_response rs)
     = ''Found '' @ Sprintf_d (length rs) @ '' properties within 50km''"
  by (simp add: build_response_def)

lemma sort_Slice_Nil: "sort_Slice_contract longSort \<Longrightarrow> sort_Slice longSort rs = [] \<longleftrightarrow> rs = []"
  using length_sort_Slice [of longSort rs] by (metis length_0_conv)

lemma sort_Slice_empty: "sort_Slice longSort [] = []"
  by (simp add: sort_Slice_def insertionSort_def)

lemma Message_recognized: "Message (build_response rs) \<noteq> ''Location not recognized''"
  by (simp add: build_response_def)

text \<open>
  C6. The response of \<open>searchProperties\<close> in any run: when resolution fails it has
  no properties and the message "Location not recognized"; when resolution
  succeeds and no property of the catalog is within the radius of the target it
  has no properties and the message "No properties found within 50km"; otherwise
  the message is "Found N properties within 50km", \<open>N\<close> the number of properties
  in the response.
\<close>

theorem response_messages:
  assumes "reachable d searchCache" and "iteration_order order"
    and "sort_Slice_contract longSort"
  shows "(\<forall>lat lon key. resolve_target order (TrimSpace q) = (False, lat, lon, key) \<longrightarrow>
            fst (searchProperties d order longSort searchCache q)
              = \<lparr>Properties = [], Message = ''Location not recognized''\<rparr>)
       \<and> (\<forall>lat lon key. resolve_target order (TrimSpace q) = (True, lat, lon, key)
              \<and> scan_properties d lat lon properties = [] \<longrightarrow>
            fst (searchProperties d order longSort searchCache q)
              = \<lparr>Properties = [], Message = ''No properties found within 50km''\<rparr>)
       \<and> (\<forall>lat lon key. resolve_target order (TrimSpace q) = (True, lat, lon, key)
              \<and> scan_properties d lat lon properties \<noteq> [] \<longrightarrow>
            Properties (fst (searchProperties d order longSort searchCache q)) \<noteq> [] \<and>
            Message (fst (searchProperties d order longSort searchCache q))
              = ''Found ''
                @ Sprintf_d (length (Properties (fst (searchProperties d order longSort searchCache q))))
                @ '' properties within 50km'')"
proof -
  have "cache_inv d searchCache"
    using assms(1) by (rule reachable_cache_inv)
  from this assms(2,3) show ?thesis
  proof (cases rule: searchProperties_response [where q = q])
    case (resolved lat lon key longSort')
    have empty: "fst (searchProperties d order longSort searchCache q)
                   = \<lparr>Properties = [], Message = ''No properties found within 50km''\<rparr>"
      if "scan_properties d lat lon properties = []"
      using that resolved(4) by (simp add: sort_Slice_empty build_response_empty)
    have found: "Properties (fst (searchProperties d order longSort searchCache q)) \<noteq> [] \<and>
                 Message (fst (searchProperties d order longSort searchCache q))
                   = ''Found ''
                     @ Sprintf_d (length (Properties (fst (searchProperties d order longSort searchCache q))))
                     @ '' properties within 50km''"
      if "scan_properties d lat lon properties \<noteq> []"
      using that resolved(3,4)
      by (simp add: sort_Slice_Nil Properties_build_response Message_build_response)
    from resolved(1) empty found show ?thesis by simp
  next
    case (unresolved lat lon key)
    then show ?thesis by (simp add: not_recognized_def)
  qed
qed

lemma findBestCityMatch_xyzzy: "findBestCityMatch cityKeys ''xyzzy'' = ''''"
  by (simp add: findBestCityMatch_def cityKeys_def cityCenters_entries_def ToLower_def
      toLowerChar_def distance_eval del: ComputeDistance.simps)

lemma resolve_target_xyzzy: "resolve_target cityKeys (TrimSpace ''xyzzy'') = (False, 0, 0, ''xyzzy'')"
proof -
  have t: "TrimSpace ''xyzzy'' = ''xyzzy''"
    by (simp add: TrimSpace_def isSpace_def)
  have l: "ToLower ''xyzzy'' = ''xyzzy''"
    by (simp add: ToLower_def toLowerChar_def)
  have "cityCenters (ToLower ''xyzzy'') = None"
    unfolding l by (simp add: cityCenters_None set_cityKeys)
  from resolve_target_unresolved [OF this findBestCityMatch_xyzzy] show ?thesis
    unfolding t l .
qed

theorem response_messages_witness:
  "fst (searchProperties sample_distance cityKeys sample_sort Map.empty ''xyzzy'')
     = \<lparr>Properties = [], Message = ''Location not recognized''\<rparr>"
  using response_messages [OF reachable_empty iteration_order_cityKeys sample_sort_contract,
      where d = sample_distance and q = "''xyzzy''"] resolve_target_xyzzy
  by blast

section \<open>The radius\<close>

text \<open>
  C4. When the query resolves to a target, the properties of the response are
  exactly the properties of the catalog whose distance to the target is at most
  50 (each once, with its name, distance and coordinates), and none in the
  response is farther than 50; a response without properties is an ordinary
  return value.
\<close>

theorem radius_filter:
  assumes "reachable d searchCache" and "iteration_order order"
    and "sort_Slice_contract longSort"
    and "resolve_target order (TrimSpace q) = (True, lat, lon, key)"
  shows "mset (Properties (fst (searchProperties d order longSort searchCache q)))
           = mset (map (\<lambda>p. \<lparr>rName = Name p, Distance = d lat lon (Latitude p) (Longitude p),
                              rLatitude = Latitude p, rLongitude = Longitude p\<rparr>)
                      (filter (\<lambda>p. d lat lon (Latitude p) (Longitude p) \<le> 50) properties))
       \<and> (\<forall>r\<in>set (Properties (fst (searchProperties d order longSort searchCache q))).
            Distance r \<le> 50)"
proof -
  have "cache_inv d searchCache"
    using assms(1) by (rule reachable_cache_inv)
  from this assms(2,3) show ?thesis
  proof (cases rule: searchProperties_response [where q = q])
    case (resolved lat' lon' key' longSort')
    with assms(4) have same: "lat' = lat" "lon' = lon" by simp_all
    have m: "mset (Properties (fst (searchProperties d order longSort searchCache q)))
               = mset (scan_properties d lat lon properties)"
      using resolved(3,4) same by (simp add: Properties_build_response mset_sort_Slice)
    then have "set (Properties (fst (searchProperties d order longSort searchCache q)))
                 = set (scan_properties d lat lon properties)"
      by (rule mset_eq_setD)
    with m show ?thesis
      using scan_properties_within [of _ d lat lon properties]
      by (auto simp: scan_properties_filter [symmetric])
  next
    case (unresolved lat' lon' key')
    with assms(4) show ?thesis by simp
  qed
qed

lemma cityCenters_udaipur: "cityCenters ''udaipur'' = Some (24.5854, 73.7125)"
  by (simp add: cityCenters_def cityCenters_entries_def)

lemma cityCenters_jaipur: "cityCenters ''jaipur'' = Some (26.9124, 75.7873)"
  by (simp add: cityCenters_def cityCenters_entries_def)

lemma norm_udaipur: "TrimSpace ''udaipur'' = ''udaipur''" "ToLower ''udaipur'' = ''udaipur''"
  using cityKey_normal [of "''udaipur''"] by (simp_all add: set_cityKeys)

lemma resolve_target_udaipur:
  "resolve_target order (TrimSpace ''udaipur'') = (True, 24.5854, 73.7125, ''udaipur'')"
  using resolve_target_exact [of "''udaipur''" "24.5854" "73.7125" order]
  by (simp add: norm_udaipur cityCenters_udaipur)

lemma near_udaipur:
  "length (filter (\<lambda>p. sample_distance 24.5854 73.7125 (Latitude p) (Longitude p) \<le> 50) properties) = 3"
  by (simp add: properties_def mkProperty_def sample_distance_def)

lemma near_jaipur:
  "length (filter (\<lambda>p. sample_distance 26.9124 75.7873 (Latitude p) (Longitude p) \<le> 50) properties) = 1"
  by (simp add: properties_def mkProperty_def sample_distance_def)

theorem radius_filter_witness:
  "length (Properties (fst (searchProperties sample_distance cityKeys sample_sort Map.empty ''udaipur''))) = 3"
proof -
  from radius_filter [OF reachable_empty iteration_order_cityKeys sample_sort_contract
      resolve_target_udaipur, where d = sample_distance]
  have "mset (Properties (fst (searchProperties sample_distance cityKeys sample_sort Map.empty ''udaipur'')))
          = mset (map (\<lambda>p. \<lparr>rName = Name p,
                         Distance = sample_distance 24.5854 73.7125 (Latitude p) (Longitude p),
                         rLatitude = Latitude p, rLongitude = Longitude p\<rparr>)
                   (filter (\<lambda>p. sample_distance 24.5854 73.7125 (Latitude p) (Longitude p) \<le> 50)
                      properties))"
    by blast
  then have "length (Properties (fst (searchProperties sample_distance cityKeys sample_sort Map.empty ''udaipur'')))
          = length (map (\<lambda>p. \<lparr>rName = Name p,
                         Distance = sample_distance 24.5854 73.7125 (Latitude p) (Longitude p),
                         rLatitude = Latitude p, rLongitude = Longitude p\<rparr>)
                   (filter (\<lambda>p. sample_distance 24.5854 73.7125 (Latitude p) (Longitude p) \<le> 50)
                      properties))"
    by (rule mset_eq_length)
  then show ?thesis
    using near_udaipur by (simp only: length_map)
qed

section \<open>The order of the results\<close>

lemma near_lat_udaipur:
  "length (filter (\<lambda>p. \<bar>24.5854 - Latitude p\<bar> \<le> 1 / 2) properties) \<le> 6"
  by (simp add: properties_def mkProperty_def)

lemma near_lat_jaipur:
  "length (filter (\<lambda>p. \<bar>26.9124 - Latitude p\<bar> \<le> 1 / 2) properties) \<le> 6"
  by (simp add: properties_def mkProperty_def)

lemma near_lat_jaisalmer:
  "length (filter (\<lambda>p. \<bar>26.9157 - Latitude p\<bar> \<le> 1 / 2) properties) \<le> 6"
  by (simp add: properties_def mkProperty_def)

lemma near_lat_delih:
  "length (filter (\<lambda>p. \<bar>28.7041 - Latitude p\<bar> \<le> 1 / 2) properties) \<le> 6"
  by (simp add: properties_def mkProperty_def)

lemma near_count:
  assumes "(key, lat, lon) \<in> set cityCenters_entries"
  shows "length (filter (\<lambda>p. \<bar>lat - Latitude p\<bar> \<le> 1 / 2) properties) \<le> 6"
proof -
  have "lat = 24.5854 \<or> lat = 26.9124 \<or> lat = 26.9157 \<or> lat = 28.7041"
    using assms by (auto simp: cityCenters_entries_def)
  then show ?thesis
    using near_lat_udaipur near_lat_jaipur near_lat_jaisalmer near_lat_delih by blast
qed

lemma catalog_latitudes: "\<forall>p\<in>set properties. \<bar>Latitude p\<bar> \<le> 90"
  by (simp add: properties_def mkProperty_def)

lemma city_latitudes: "(key, lat, lon) \<in> set cityCenters_entries \<Longrightarrow> \<bar>lat\<bar> \<le> 90"
  by (auto simp: cityCenters_entries_def)

lemma scan_properties_short:
  assumes "meridian_bound d" and "cityCenters key = Some (lat, lon)"
  shows "length (scan_properties d lat lon properties) \<le> 6"
proof -
  have city: "(key, lat, lon) \<in> set cityCenters_entries"
    using assms(2) unfolding cityCenters_def by (rule map_of_SomeD)
  then have "length (filter (\<lambda>p. \<bar>lat - Latitude p\<bar> \<le> 1 / 2) properties) \<le> 6"
    by (rule near_count)
  moreover have "length (scan_properties d lat lon properties)
                   \<le> length (filter (\<lambda>p. \<bar>lat - Latitude p\<bar> \<le> 1 / 2) properties)"
    using assms(1) city_latitudes [OF city] catalog_latitudes
    by (rule scan_properties_length)
  ultimately show ?thesis
    by linarith
qed

lemma equal_distances_in_catalog_order:
  "subseq (map rName (filter (\<lambda>r. Distance r = k) (scan_properties d lat lon ps))) (map Name ps)"
proof -
  have "subseq (map rName (filter (\<lambda>r. Distance r = k) (scan_properties d lat lon ps)))
          (map rName (scan_properties d lat lon ps))"
    by (intro subseq_map subseq_filter_left)
  then show ?thesis
    using scan_properties_subseq [of d lat lon ps] by (rule subseq_order.order_trans)
qed

text \<open>
  C2. In any run the properties of a response are in ascending order of
  \<open>Distance\<close>. For a great-circle distance (a degree of latitude is more than
  100 km) no city of \<open>cityCenters\<close> has more than 6 properties of the catalog within
  50 km, so that the library sorts the results by insertion and properties with
  equal \<open>Distance\<close> keep the order they have in the catalog: their names are a
  subsequence of the catalog's names.
\<close>

theorem results_sorted_stable:
  assumes "reachable d searchCache" and "iteration_order order"
    and "sort_Slice_contract longSort"
  shows "by_distance (Properties (fst (searchProperties d order longSort searchCache q)))
       \<and> (meridian_bound d \<longrightarrow>
            (\<forall>k. subseq (map rName (filter (\<lambda>r. Distance r = k)
                           (Properties (fst (searchProperties d order longSort searchCache q)))))
                   (map Name properties)))"
proof -
  have "cache_inv d searchCache"
    using assms(1) by (rule reachable_cache_inv)
  from this assms(2,3) show ?thesis
  proof (cases rule: searchProperties_response [where q = q])
    case (resolved lat lon key longSort')
    have P: "Properties (fst (searchProperties d order longSort searchCache q))
               = sort_Slice longSort' (scan_properties d lat lon properties)"
      using resolved(4) by (simp add: Properties_build_response)
    have sorted: "by_distance (Properties (fst (searchProperties d order longSort searchCache q)))"
      unfolding P using resolved(3) by (rule by_distance_sort_Slice)
    have stable: "subseq (map rName (filter (\<lambda>r. Distance r = k)
                           (Properties (fst (searchProperties d order longSort searchCache q)))))
                   (map Name properties)"
      if mb: "meridian_bound d" for k
    proof -
      have "length (scan_properties d lat lon properties) \<le> 6"
        using mb resolved(2) by (rule scan_properties_short)
      then have "Properties (fst (searchProperties d order longSort searchCache q))
                   = insertionSort (scan_properties d lat lon properties)"
        unfolding P by (rule sort_Slice_short)
      then show ?thesis
        by (simp add: stable_insertionSort equal_distances_in_catalog_order)
    qed
    from sorted stable show ?thesis by blast
  next
    case (unresolved lat lon key)
    then show ?thesis by (simp add: not_recognized_def by_distance_def)
  qed
qed

theorem results_sorted_stable_witness:
  "by_distance (Properties (fst (searchProperties sample_distance cityKeys sample_sort Map.empty ''udaipur'')))
   \<and> subseq (map rName (filter (\<lambda>r. Distance r = 0)
               (Properties (fst (searchProperties sample_distance cityKeys sample_sort Map.empty ''udaipur'')))))
        (map Name properties)"
  using results_sorted_stable [OF reachable_empty iteration_order_cityKeys sample_sort_contract,
      where d = sample_distance and q = "''udaipur''"] sample_distance_meridian_bound
  by blast

section \<open>The pre-seeded misspelling\<close>

lemma cityCenters_udiapur: "cityCenters ''udiapur'' = Some (24.5854, 73.7125)"
  by (simp add: cityCenters_def cityCenters_entries_def)

lemma norm_udiapur: "TrimSpace ''udiapur'' = ''udiapur''" "ToLower ''udiapur'' = ''udiapur''"
  using cityKey_normal [of "''udiapur''"] by (simp_all add: set_cityKeys)

lemma findBestCityMatch_udiapur_unseeded:
  "findBestCityMatch [''udaipur'', ''jaipur'', ''jaisalmer'', ''delih''] ''udiapur'' = ''''"
  by (simp add: findBestCityMatch_def ToLower_def toLowerChar_def distance_eval
      del: ComputeDistance.simps)

text \<open>
  C7. \<open>udiapur\<close> is a key of \<open>cityCenters\<close> with the coordinates (24.5854, 73.7125).
  The query \<open>udiapur\<close> resolves through the exact lookup, whatever keys the fuzzy
  matcher is given to iterate over, and the response is built for those
  coordinates: it is not "Location not recognized". Among the other four keys the
  fuzzy matcher finds none for it (its edit distance to \<open>udaipur\<close> is 2).
\<close>

theorem udiapur_exact_match:
  "cityCenters ''udiapur'' = Some (24.5854, 73.7125)
   \<and> resolve_target order (TrimSpace ''udiapur'') = (True, 24.5854, 73.7125, ''udiapur'')
   \<and> fst (searchProperties d order longSort Map.empty ''udiapur'')
       = build_response (sort_Slice longSort (scan_properties d 24.5854 73.7125 properties))
   \<and> Message (fst (searchProperties d order longSort Map.empty ''udiapur''))
       \<noteq> ''Location not recognized''
   \<and> ComputeDistance ''udiapur'' ''udaipur'' = 2
   \<and> findBestCityMatch [''udaipur'', ''jaipur'', ''jaisalmer'', ''delih''] ''udiapur'' = ''''"
proof -
  have r: "resolve_target order (TrimSpace ''udiapur'') = (True, 24.5854, 73.7125, ''udiapur'')"
    using resolve_target_exact [of "''udiapur''" "24.5854" "73.7125" order]
    by (simp add: norm_udiapur cityCenters_udiapur)
  have miss: "Map.empty (ToLower (TrimSpace ''udiapur'')) = (None :: SearchResponse option)"
    by simp
  from miss r
  have "searchProperties d order longSort Map.empty ''udiapur'' =
          (build_response (sort_Slice longSort (scan_properties d 24.5854 73.7125 properties)),
           [''udiapur'' \<mapsto>
              build_response (sort_Slice longSort (scan_properties d 24.5854 73.7125 properties))])"
    by (rule searchProperties_found)
  then have f: "fst (searchProperties d order longSort Map.empty ''udiapur'')
          = build_response (sort_Slice longSort (scan_properties d 24.5854 73.7125 properties))"
    by simp
  have m: "Message (fst (searchProperties d order longSort Map.empty ''udiapur''))
          \<noteq> ''Location not recognized''"
    unfolding f by (rule Message_recognized)
  have dist: "ComputeDistance ''udiapur'' ''udaipur'' = 2"
    by (simp add: distance_eval del: ComputeDistance.simps)
  from cityCenters_udiapur r f m dist findBestCityMatch_udiapur_unseeded
  show ?thesis by blast
qed

section \<open>Repeated calls\<close>

lemma norm_daipur: "TrimSpace ''daipur'' = ''daipur''" "ToLower ''daipur'' = ''daipur''"
  by (simp_all add: TrimSpace_def isSpace_def ToLower_def toLowerChar_def)

lemma cityCenters_daipur: "cityCenters ''daipur'' = None"
  by (simp add: cityCenters_None set_cityKeys)

lemma findBestCityMatch_daipur_udaipur_first:
  "findBestCityMatch [''udaipur'', ''jaipur'', ''jaisalmer'', ''delih'', ''udiapur''] ''daipur''
     = ''udaipur''"
  by (simp add: findBestCityMatch_def ToLower_def toLowerChar_def distance_eval
      del: ComputeDistance.simps)

lemma findBestCityMatch_daipur_jaipur_first:
  "findBestCityMatch [''jaipur'', ''udaipur'', ''jaisalmer'', ''delih'', ''udiapur''] ''daipur''
     = ''jaipur''"
  by (simp add: findBestCityMatch_def ToLower_def toLowerChar_def distance_eval
      del: ComputeDistance.simps)

lemma iteration_order_udaipur_first:
  "iteration_order [''udaipur'', ''jaipur'', ''jaisalmer'', ''delih'', ''udiapur'']"
  by (simp add: iteration_order_def set_cityKeys)

lemma iteration_order_jaipur_first:
  "iteration_order [''jaipur'', ''udaipur'', ''jaisalmer'', ''delih'', ''udiapur'']"
  by (auto simp: iteration_order_def set_cityKeys)

lemma Sprintf_d_digits: "Sprintf_d 3 = ''3''" "Sprintf_d (Suc 0) = ''1''"
  by (simp_all add: Sprintf_d.simps digit_char_def)

lemma Message_found:
  assumes "sort_Slice_contract longSort" and "length rs = n" and "0 < n"
  shows "Message (build_response (sort_Slice longSort rs))
           = ''Found '' @ Sprintf_d n @ '' properties within 50km''"
proof -
  have "length (sort_Slice longSort rs) = n"
    using assms(1,2) by (simp add: length_sort_Slice)
  moreover from this assms(3) have "sort_Slice longSort rs \<noteq> []"
    by auto
  ultimately show ?thesis
    by (simp add: Message_build_response)
qed

lemma daipur_first_call:
  "searchProperties sample_distance [''udaipur'', ''jaipur'', ''jaisalmer'', ''delih'', ''udiapur'']
       sample_sort Map.empty ''daipur''
     = (build_response (sort_Slice sample_sort
          (scan_properties sample_distance 24.5854 73.7125 properties)),
        [''udaipur'' \<mapsto> build_response (sort_Slice sample_sort
          (scan_properties sample_distance 24.5854 73.7125 properties))])"
proof -
  have "resolve_target [''udaipur'', ''jaipur'', ''jaisalmer'', ''delih'', ''udiapur'']
          (TrimSpace ''daipur'') = (True, 24.5854, 73.7125, ''udaipur'')"
    using resolve_target_fuzzy [of "''daipur''"
        "[''udaipur'', ''jaipur'', ''jaisalmer'', ''delih'', ''udiapur'']" "24.5854" "73.7125"]
    by (simp add: norm_daipur cityCenters_daipur findBestCityMatch_daipur_udaipur_first
        cityCenters_udaipur)
  moreover have "Map.empty (ToLower (TrimSpace ''daipur'')) = (None :: SearchResponse option)"
    by simp
  ultimately show ?thesis
    by (intro searchProperties_found)
qed

lemma daipur_second_call:
  assumes "c ''daipur'' = None"
  shows "fst (searchProperties sample_distance
            [''jaipur'', ''udaipur'', ''jaisalmer'', ''delih'', ''udiapur''] sample_sort c ''daipur'')
     = build_response (sort_Slice sample_sort
          (scan_properties sample_distance 26.9124 75.7873 properties))"
proof -
  have "resolve_target [''jaipur'', ''udaipur'', ''jaisalmer'', ''delih'', ''udiapur'']
          (TrimSpace ''daipur'') = (True, 26.9124, 75.7873, ''jaipur'')"
    using resolve_target_fuzzy [of "''daipur''"
        "[''jaipur'', ''udaipur'', ''jaisalmer'', ''delih'', ''udiapur'']" "26.9124" "75.7873"]
    by (simp add: norm_daipur cityCenters_daipur findBestCityMatch_daipur_jaipur_first
        cityCenters_jaipur)
  moreover have "c (ToLower (TrimSpace ''daipur'')) = None"
    using assms by (simp add: norm_daipur)
  ultimately have "searchProperties sample_distance
            [''jaipur'', ''udaipur'', ''jaisalmer'', ''delih'', ''udiapur''] sample_sort c ''daipur''
     = (build_response (sort_Slice sample_sort
          (scan_properties sample_distance 26.9124 75.7873 properties)),
        c(''jaipur'' \<mapsto> build_response (sort_Slice sample_sort
          (scan_properties sample_distance 26.9124 75.7873 properties))))"
    by (intro searchProperties_found)
  then show ?thesis by simp
qed

text \<open>
  C8, as stated, fails. The query \<open>daipur\<close> is at edit distance 1 from the keys
  \<open>udaipur\<close> and \<open>jaipur\<close>, which have different coordinates, and the loop of
  \<open>findBestCityMatch\<close> keeps the first of them it visits. A first call that visits
  \<open>udaipur\<close> first answers with the properties around Udaipur and stores them under
  \<open>udaipur\<close>; the query \<open>daipur\<close> itself is not cached, so a second call resolves
  again, and when it visits \<open>jaipur\<close> first it answers with the property around
  Jaipur.
\<close>

theorem repeated_call_counterexample:
  "iteration_order [''udaipur'', ''jaipur'', ''jaisalmer'', ''delih'', ''udiapur'']
   \<and> iteration_order [''jaipur'', ''udaipur'', ''jaisalmer'', ''delih'', ''udiapur'']
   \<and> findBestCityMatch [''udaipur'', ''jaipur'', ''jaisalmer'', ''delih'', ''udiapur''] ''daipur''
       = ''udaipur''
   \<and> findBestCityMatch [''jaipur'', ''udaipur'', ''jaisalmer'', ''delih'', ''udiapur''] ''daipur''
       = ''jaipur''
   \<and> Message (fst (searchProperties sample_distance
         [''udaipur'', ''jaipur'', ''jaisalmer'', ''delih'', ''udiapur''] sample_sort Map.empty
         ''daipur''))
       = ''Found 3 properties within 50km''
   \<and> Message (fst (searchProperties sample_distance
         [''jaipur'', ''udaipur'', ''jaisalmer'', ''delih'', ''udiapur''] sample_sort
         (snd (searchProperties sample_distance
            [''udaipur'', ''jaipur'', ''jaisalmer'', ''delih'', ''udiapur''] sample_sort Map.empty
            ''daipur''))
         ''daipur''))
       = ''Found 1 properties within 50km''"
proof -
  have len3: "length (scan_properties sample_distance 24.5854 73.7125 properties) = 3"
    using near_udaipur by (simp only: scan_properties_filter length_map)
  have len1: "length (scan_properties sample_distance 26.9124 75.7873 properties) = 1"
    using near_jaipur by (simp only: scan_properties_filter length_map)
  have first: "Message (fst (searchProperties sample_distance
         [''udaipur'', ''jaipur'', ''jaisalmer'', ''delih'', ''udiapur''] sample_sort Map.empty
         ''daipur''))
       = ''Found 3 properties within 50km''"
    using Message_found [OF sample_sort_contract len3]
    by (simp add: daipur_first_call Sprintf_d_digits)
  have "snd (searchProperties sample_distance
            [''udaipur'', ''jaipur'', ''jaisalmer'', ''delih'', ''udiapur''] sample_sort Map.empty
            ''daipur'') ''daipur'' = None"
    by (simp add: daipur_first_call)
  then have "fst (searchProperties sample_distance
            [''jaipur'', ''udaipur'', ''jaisalmer'', ''delih'', ''udiapur''] sample_sort
            (snd (searchProperties sample_distance
               [''udaipur'', ''jaipur'', ''jaisalmer'', ''delih'', ''udiapur''] sample_sort
               Map.empty ''daipur''))
            ''daipur'')
     = build_response (sort_Slice sample_sort
          (scan_properties sample_distance 26.9124 75.7873 properties))"
    by (rule daipur_second_call)
  then have second: "Message (fst (searchProperties sample_distance
         [''jaipur'', ''udaipur'', ''jaisalmer'', ''delih'', ''udiapur''] sample_sort
         (snd (searchProperties sample_distance
            [''udaipur'', ''jaipur'', ''jaisalmer'', ''delih'', ''udiapur''] sample_sort Map.empty
            ''daipur''))
         ''daipur''))
       = ''Found 1 properties within 50km''"
    using Message_found [OF sample_sort_contract len1]
    by (simp add: Sprintf_d_digits)
  from iteration_order_udaipur_first iteration_order_jaipur_first
    findBestCityMatch_daipur_udaipur_first findBestCityMatch_daipur_jaipur_first first second
  show ?thesis by blast
qed

text \<open>
  C8, amended. A second call of \<open>searchProperties\<close> with the same query returns the
  response of the first, whatever the two iteration orders, when the query is a
  key of \<open>cityCenters\<close> or all keys within edit distance 1 of the lowercased, trimmed
  query have the same coordinates: the response comes from the cache when the
  first call stored it under the query, and is computed again for the same target
  otherwise.
\<close>

theorem repeated_call_same_response:
  assumes "iteration_order order1" and "iteration_order order2"
    and "\<forall>c1\<in>set cityKeys. \<forall>c2\<in>set cityKeys.
           cityCenters (ToLower (TrimSpace q)) = None
           \<and> ComputeDistance (ToLower (TrimSpace q)) c1 < 2
           \<and> ComputeDistance (ToLower (TrimSpace q)) c2 < 2
           \<longrightarrow> cityCenters c1 = cityCenters c2"
  shows "fst (searchProperties d order2 longSort
                (snd (searchProperties d order1 longSort searchCache q)) q)
           = fst (searchProperties d order1 longSort searchCache q)"
proof (cases "searchCache (ToLower (TrimSpace q))")
  case (Some r)
  then have "searchProperties d order1 longSort searchCache q = (r, searchCache)"
    by (rule searchProperties_hit)
  moreover from Some have "searchProperties d order2 longSort searchCache q = (r, searchCache)"
    by (rule searchProperties_hit)
  ultimately show ?thesis by simp
next
  case None
  from assms(1) show ?thesis
  proof (cases rule: resolve_target_cases [where query = "TrimSpace q"])
    case (exact lat lon)
    with None have first: "searchProperties d order1 longSort searchCache q =
        (build_response (sort_Slice longSort (scan_properties d lat lon properties)),
         searchCache(ToLower (TrimSpace q) \<mapsto>
           build_response (sort_Slice longSort (scan_properties d lat lon properties))))"
      by (intro searchProperties_found)
    then have "snd (searchProperties d order1 longSort searchCache q) (ToLower (TrimSpace q))
                 = Some (fst (searchProperties d order1 longSort searchCache q))"
      by simp
    then have "searchProperties d order2 longSort
                 (snd (searchProperties d order1 longSort searchCache q)) q
               = (fst (searchProperties d order1 longSort searchCache q),
                  snd (searchProperties d order1 longSort searchCache q))"
      by (rule searchProperties_hit)
    then show ?thesis by simp
  next
    case unresolved
    with None have first: "searchProperties d order1 longSort searchCache q =
        (not_recognized, searchCache(ToLower (TrimSpace q) \<mapsto> not_recognized))"
      by (intro searchProperties_unresolved)
    then have "snd (searchProperties d order1 longSort searchCache q) (ToLower (TrimSpace q))
                 = Some (fst (searchProperties d order1 longSort searchCache q))"
      by simp
    then have "searchProperties d order2 longSort
                 (snd (searchProperties d order1 longSort searchCache q)) q
               = (fst (searchProperties d order1 longSort searchCache q),
                  snd (searchProperties d order1 longSort searchCache q))"
      by (rule searchProperties_hit)
    then show ?thesis by simp
  next
    case (fuzzy lat lon)
    let ?b1 = "findBestCityMatch order1 (TrimSpace q)"
    let ?b2 = "findBestCityMatch order2 (TrimSpace q)"
    let ?resp = "build_response (sort_Slice longSort (scan_properties d lat lon properties))"
    from None fuzzy(4)
    have first: "searchProperties d order1 longSort searchCache q
                   = (?resp, searchCache(?b1 \<mapsto> ?resp))"
      by (intro searchProperties_found)
    have b1: "?b1 \<in> set cityKeys"
      using assms(1) fuzzy(2) by (rule findBestCityMatch_city(1))
    have near1: "ComputeDistance (ToLower (TrimSpace q)) ?b1 < 2"
      using findBestCityMatch_cases [of order1 "TrimSpace q"] fuzzy(2) by blast
    have "?b1 \<in> set order2"
      using b1 assms(2) by (simp add: iteration_order_def)
    from this near1 have ne2: "?b2 \<noteq> ''''"
      by (rule findBestCityMatch_found)
         (use assms(2) in \<open>simp add: iteration_order_def cityKey_not_empty\<close>)
    have b2: "?b2 \<in> set cityKeys"
      using assms(2) ne2 by (rule findBestCityMatch_city(1))
    have near2: "ComputeDistance (ToLower (TrimSpace q)) ?b2 < 2"
      using findBestCityMatch_cases [of order2 "TrimSpace q"] ne2 by blast
    have "cityCenters ?b2 = cityCenters ?b1"
      using assms(3) b1 b2 near1 near2 fuzzy(1) by blast
    with fuzzy(3) have "cityCenters ?b2 = Some (lat, lon)"
      by simp
    with fuzzy(1) ne2
    have r2: "resolve_target order2 (TrimSpace q) = (True, lat, lon, ?b2)"
      by (intro resolve_target_fuzzy)
    have "?b1 \<noteq> ToLower (TrimSpace q)"
      using b1 fuzzy(1) by (auto simp: cityCenters_None)
    with None have "(searchCache(?b1 \<mapsto> ?resp)) (ToLower (TrimSpace q)) = None"
      by simp
    from this r2
    have "searchProperties d order2 longSort (searchCache(?b1 \<mapsto> ?resp)) q
            = (?resp, (searchCache(?b1 \<mapsto> ?resp))(?b2 \<mapsto> ?resp))"
      by (rule searchProperties_found)
    with first show ?thesis by simp
  qed
qed

lemma near_jaipurr:
  "c \<in> set cityKeys \<Longrightarrow> ComputeDistance ''jaipurr'' c < 2 \<Longrightarrow> c = ''jaipur''"
  unfolding set_cityKeys
  by (auto simp: distance_eval simp del: ComputeDistance.simps)

theorem repeated_call_same_response_witness:
  "fst (searchProperties sample_distance (rev cityKeys) sample_sort
          (snd (searchProperties sample_distance cityKeys sample_sort Map.empty ''Jaipurr ''))
          ''Jaipurr '')
     = fst (searchProperties sample_distance cityKeys sample_sort Map.empty ''Jaipurr '')"
proof -
  have norm: "ToLower (TrimSpace ''Jaipurr '') = ''jaipurr''"
    by (simp only: TrimSpace_Jaipurr ToLower_Jaipurr)
  have ties: "\<forall>c1\<in>set cityKeys. \<forall>c2\<in>set cityKeys.
           cityCenters (ToLower (TrimSpace ''Jaipurr '')) = None
           \<and> ComputeDistance (ToLower (TrimSpace ''Jaipurr '')) c1 < 2
           \<and> ComputeDistance (ToLower (TrimSpace ''Jaipurr '')) c2 < 2
           \<longrightarrow> cityCenters c1 = cityCenters c2"
    unfolding norm using near_jaipurr by blast
  have rev_order: "iteration_order (rev cityKeys)"
    using iteration_order_cityKeys by (simp add: iteration_order_def)
  from repeated_call_same_response [OF iteration_order_cityKeys rev_order ties]
  show ?thesis .
qed

end
